theory Spec2Isabelle
  imports Complex_Main
begin

section \<open>Ghost kart replay: the data of \<open>karts/ghost_kart.cpp\<close>\<close>

text \<open>
  The ghost kart replays a recorded run: \<open>GhostKart::addReplayEvent\<close> appends one
  recorded frame to three parallel vectors, \<open>GhostKart::update\<close> interpolates the pose
  between the two frames that the ghost controller brackets, \<open>GhostKart::getSpeed\<close>
  reads the recorded speed and \<open>GhostKart::reset\<close> restarts the replay.

  Conventions of the embedding.
  \<^item> A C++ \<open>float\<close> is a \<open>real\<close>: rounding, infinities and NaN are not modelled, and
    where the source divides the theorems say which divisor they assume.
  \<^item> An \<open>unsigned int\<close> index is a \<open>nat\<close>; the vectors are far shorter than
    \<open>2^32\<close>, so \<open>idx + 1\<close> does not wrap.
  \<^item> A failed \<open>assert\<close> (assertions are enabled), a call through a null pointer and
    a read past the end of a \<open>std::vector\<close> abort the call: the functions return
    \<open>error + state\<close>.
  \<^item> Calls into classes whose code is not part of the file (the kart graphics, the
    kart model, \<open>Moveable\<close>, \<open>Kart\<close>) are appended to a log, in the order made.
\<close>

datatype error = NullDeref | AssertFailed | OutOfBounds

record Vec3 =
  vx :: real
  vy :: real
  vz :: real

definition vscale :: "real \<Rightarrow> Vec3 \<Rightarrow> Vec3" where
  "vscale k v = \<lparr>vx = k * vx v, vy = k * vy v, vz = k * vz v\<rparr>"

definition vadd :: "Vec3 \<Rightarrow> Vec3 \<Rightarrow> Vec3" where
  "vadd a b = \<lparr>vx = vx a + vx b, vy = vy a + vy b, vz = vz a + vz b\<rparr>"

text \<open>\<open>btQuaternion(x, y, z, w)\<close>; \<open>btQuaternion(0, 0, 0, 1)\<close> is the identity.\<close>

record btQuaternion =
  qx :: real
  qy :: real
  qz :: real
  qw :: real

definition qdot :: "btQuaternion \<Rightarrow> btQuaternion \<Rightarrow> real" where
  "qdot a b = qx a * qx b + qy a * qy b + qz a * qz b + qw a * qw b"

definition length2 :: "btQuaternion \<Rightarrow> real" where
  "length2 q = qdot q q"

text \<open>The linear blend of two quaternions, the operation that \<open>update\<close> does not use.\<close>

definition qlerp :: "btQuaternion \<Rightarrow> btQuaternion \<Rightarrow> real \<Rightarrow> btQuaternion" where
  "qlerp a b t =
     \<lparr>qx = (1 - t) * qx a + t * qx b, qy = (1 - t) * qy a + t * qy b,
      qz = (1 - t) * qz a + t * qz b, qw = (1 - t) * qw a + t * qw b\<rparr>"

text \<open>
  Modelled from the spec: \<open>btQuaternion::slerp\<close> belongs to the bundled Bullet library
  (\<open>LinearMath/btQuaternion.h\<close>), whose code is not among the source files. The spec
  describes it as the spherical (shortest-arc, constant-angular-velocity) interpolation
  between two unit orientation quaternions: the angle \<open>theta\<close> between the two is taken
  on the shorter arc (the second quaternion is negated when the dot product is
  negative), and the result moves along the arc with the fraction \<open>t\<close> of the angle.
  Two quaternions at angle \<open>0\<close> give the first one back.
\<close>

definition slerp :: "btQuaternion \<Rightarrow> btQuaternion \<Rightarrow> real \<Rightarrow> btQuaternion" where
  "slerp q0 q1 t =
     (let product = qdot q0 q1;
          sign = (if product < 0 then - 1 else 1);
          theta = arccos (sign * product);
          d = sin theta
      in if d = 0 then q0
         else
           let s0 = sin ((1 - t) * theta) / d;
               s1 = sign * sin (t * theta) / d
           in \<lparr>qx = qx q0 * s0 + qx q1 * s1, qy = qy q0 * s0 + qy q1 * s1,
               qz = qz q0 * s0 + qz q1 * s1, qw = qw q0 * s0 + qw q1 * s1\<rparr>)"

text \<open>
  Modelled from the spec: \<open>btTransform\<close> is Bullet's rigid transform; the spec's frame
  holds it as a 3D position and a unit orientation quaternion. \<open>getOrigin\<close> is
  \<open>origin\<close>, \<open>getRotation\<close> is \<open>rotation\<close>.
\<close>

record btTransform =
  origin :: Vec3
  rotation :: btQuaternion

text \<open>
  \<open>ReplayBase::PhysicInfo\<close> and \<open>ReplayBase::KartReplayEvent\<close>, with the fields that
  \<open>ghost_kart.cpp\<close> reads. \<open>m_suspension_length\<close> is a \<open>float[4]\<close>.
\<close>

record PhysicInfo =
  m_speed :: real
  m_steer :: real
  m_suspension_length :: "real list"

record KartReplayEvent =
  m_on_nitro :: bool
  m_on_zipper :: bool

text \<open>The calls that leave the file, with their arguments.\<close>

datatype call =
    UpdateNitroGraphics real
  | ShowZipperFire
  | UpdateGraphics real Vec3 btQuaternion
  | KartModelUpdate real real real real nat
  | KartGFXUpdate real
  | SetDefaultSuspension
  | KartReset

text \<open>
  The interface of \<open>GhostController\<close> that \<open>ghost_kart.cpp\<close> calls. The class is not
  among the source files, so its methods are parameters: \<open>'c\<close> is the controller's
  state, \<open>gc_update\<close> is \<open>GhostController::update\<close> and \<open>gc_reset\<close> is what
  \<open>Kart::reset\<close> does to the controller.
\<close>

record 'c GhostController =
  gc_update :: "real \<Rightarrow> 'c \<Rightarrow> 'c"
  isReplayEnd :: "'c \<Rightarrow> bool"
  getCurrentReplayIndex :: "'c \<Rightarrow> nat"
  getReplayDelta :: "'c \<Rightarrow> real"
  addReplayTime :: "real \<Rightarrow> 'c \<Rightarrow> 'c"
  gc_reset :: "'c \<Rightarrow> 'c"

text \<open>
  The constants of the kart that the file reads through getters, and the product of a
  rotation's basis matrix with a vector (\<open>getBasis() * v\<close>, Bullet), as parameters.
\<close>

record kart_env =
  getEngineMaxSpeed :: real
  getKartLength :: real
  getLowestPoint :: real
  basis_mul :: "btQuaternion \<Rightarrow> Vec3 \<Rightarrow> Vec3"

text \<open>
  The ghost kart. \<open>controller\<close> is \<open>None\<close> when
  \<open>dynamic_cast<GhostController*>(getController())\<close> yields \<open>NULL\<close>;
  \<open>m_transform\<close> is the kart's pose (\<open>setXYZ\<close>, \<open>setRotation\<close>, \<open>getTrans\<close>) and
  \<open>node_visible\<close> the visibility of \<open>m_node\<close>.
\<close>

record 'c GhostKart =
  m_all_transform :: "btTransform list"
  m_all_physic_info :: "PhysicInfo list"
  m_all_replay_events :: "KartReplayEvent list"
  m_graphical_y_offset :: real
  m_transform :: btTransform
  m_xyz_front :: Vec3
  node_visible :: bool
  controller :: "'c option"
  calls :: "call list"

definition setXYZ :: "Vec3 \<Rightarrow> 'c GhostKart \<Rightarrow> 'c GhostKart" where
  "setXYZ p s = s\<lparr>m_transform := (m_transform s)\<lparr>origin := p\<rparr>\<rparr>"

definition setRotation :: "btQuaternion \<Rightarrow> 'c GhostKart \<Rightarrow> 'c GhostKart" where
  "setRotation q s = s\<lparr>m_transform := (m_transform s)\<lparr>rotation := q\<rparr>\<rparr>"

definition do_call :: "call \<Rightarrow> 'c GhostKart \<Rightarrow> 'c GhostKart" where
  "do_call c s = s\<lparr>calls := calls s @ [c]\<rparr>"

text \<open>\<open>getTrans()(v)\<close>: the basis applied to \<open>v\<close>, plus the origin.\<close>

definition trans_apply :: "kart_env \<Rightarrow> btTransform \<Rightarrow> Vec3 \<Rightarrow> Vec3" where
  "trans_apply env t v = vadd (basis_mul env (rotation t) v) (origin t)"

section \<open>The operations\<close>

text \<open>
  \<open>GhostKart::addReplayEvent\<close> (its parameters \<open>trans\<close> and \<open>pi\<close> are \<open>tr\<close> and
  \<open>phys\<close> here). The controller is dereferenced without a null check.
  The three \<open>push_back\<close>s come first; the offset is computed when the physics vector
  then has exactly one element.
\<close>

definition addReplayEvent ::
  "'c GhostController \<Rightarrow> kart_env \<Rightarrow> real \<Rightarrow> btTransform \<Rightarrow> PhysicInfo \<Rightarrow> KartReplayEvent
     \<Rightarrow> 'c GhostKart \<Rightarrow> error + 'c GhostKart" where
  "addReplayEvent gcI env time tr phys kre s =
     (case controller s of
        None \<Rightarrow> Inl NullDeref
      | Some gc \<Rightarrow>
          let s1 = s\<lparr>controller := Some (addReplayTime gcI time gc)\<rparr>;
              s2 = s1\<lparr>m_all_transform := m_all_transform s1 @ [tr],
                      m_all_physic_info := m_all_physic_info s1 @ [phys],
                      m_all_replay_events := m_all_replay_events s1 @ [kre]\<rparr>
          in if length (m_all_physic_info s2) = 1
             then
               let f = fold (\<lambda>i f. f + m_suspension_length (m_all_physic_info s2 ! 0) ! i)
                            [0..<4] 0
               in Inr (do_call SetDefaultSuspension
                         (s2\<lparr>m_graphical_y_offset := - f / 4 + getLowestPoint env\<rparr>))
             else Inr s2)"

text \<open>Loading a replay: the recorded frames are appended one after the other.\<close>

fun addReplayEvents ::
  "'c GhostController \<Rightarrow> kart_env \<Rightarrow> (real \<times> btTransform \<times> PhysicInfo \<times> KartReplayEvent) list
     \<Rightarrow> 'c GhostKart \<Rightarrow> error + 'c GhostKart" where
  "addReplayEvents gcI env [] s = Inr s"
| "addReplayEvents gcI env ((time, tr, phys, kre) # fs) s =
     (case addReplayEvent gcI env time tr phys kre s of
        Inl e \<Rightarrow> Inl e
      | Inr s' \<Rightarrow> addReplayEvents gcI env fs s')"

text \<open>
  \<open>GhostKart::update\<close>. The assertion checks \<open>idx\<close> against the size of
  \<open>m_all_transform\<close>; the reads that follow are \<open>m_all_replay_events[idx]\<close>,
  \<open>m_all_physic_info[idx]\<close>, \<open>m_all_transform[idx]\<close> and \<open>m_all_transform[idx + 1]\<close>.
\<close>

definition update ::
  "'c GhostController \<Rightarrow> kart_env \<Rightarrow> real \<Rightarrow> 'c GhostKart \<Rightarrow> error + 'c GhostKart" where
  "update gcI env dt s =
     (case controller s of
        None \<Rightarrow> Inr s
      | Some gc0 \<Rightarrow>
          let gc = gc_update gcI dt gc0;
              s1 = s\<lparr>controller := Some gc\<rparr>
          in if isReplayEnd gcI gc then Inr (s1\<lparr>node_visible := False\<rparr>)
             else
               let idx = getCurrentReplayIndex gcI gc;
                   rd = getReplayDelta gcI gc
               in if \<not> idx < length (m_all_transform s1) then Inl AssertFailed
                  else if \<not> (idx < length (m_all_replay_events s1) \<and>
                              idx < length (m_all_physic_info s1) \<and>
                              idx + 1 < length (m_all_transform s1))
                  then Inl OutOfBounds
                  else
                    let nitro_frac =
                          (if m_on_nitro (m_all_replay_events s1 ! idx)
                           then
                             let f = \<bar>m_speed (m_all_physic_info s1 ! idx)\<bar> /
                                     getEngineMaxSpeed env
                             in if f > 1 then 1 else f
                           else 0);
                        s2 = do_call (UpdateNitroGraphics nitro_frac) s1;
                        s3 = (if m_on_zipper (m_all_replay_events s2 ! idx)
                              then do_call ShowZipperFire s2 else s2);
                        s4 = setXYZ (vadd (vscale (1 - rd) (origin (m_all_transform s3 ! idx)))
                                          (vscale rd (origin (m_all_transform s3 ! (idx + 1)))))
                                    s3;
                        q = slerp (rotation (m_all_transform s4 ! idx))
                                  (rotation (m_all_transform s4 ! (idx + 1))) rd;
                        s5 = setRotation q s4;
                        center_shift =
                          basis_mul env (rotation (m_transform s5))
                            \<lparr>vx = 0, vy = m_graphical_y_offset s5, vz = 0\<rparr>;
                        s6 = do_call (UpdateGraphics dt center_shift
                                        \<lparr>qx = 0, qy = 0, qz = 0, qw = 1\<rparr>) s5;
                        s7 = do_call (KartModelUpdate dt
                                        (dt * m_speed (m_all_physic_info s6 ! idx))
                                        (m_steer (m_all_physic_info s6 ! idx))
                                        (m_speed (m_all_physic_info s6 ! idx)) idx) s6;
                        front = \<lparr>vx = 0, vy = 0, vz = getKartLength env * 0.5\<rparr>;
                        s8 = s7\<lparr>m_xyz_front := trans_apply env (m_transform s7) front\<rparr>
                    in Inr (do_call (KartGFXUpdate dt) s8))"

text \<open>
  \<open>GhostKart::getSpeed\<close>. The controller is dereferenced without a null check; the
  assertion checks the index against the size of \<open>m_all_physic_info\<close>.
\<close>

definition getSpeed :: "'c GhostController \<Rightarrow> 'c GhostKart \<Rightarrow> error + real" where
  "getSpeed gcI s =
     (case controller s of
        None \<Rightarrow> Inl NullDeref
      | Some gc \<Rightarrow>
          if \<not> getCurrentReplayIndex gcI gc < length (m_all_physic_info s)
          then Inl AssertFailed
          else Inr (m_speed (m_all_physic_info s ! getCurrentReplayIndex gcI gc)))"

text \<open>
  Modelled from the spec: \<open>Kart::reset\<close> is not among the source files. The spec says
  of it that the reset of index and time is delegated to the cursor (frame 0,
  fraction 0); nothing else of it is modelled.
\<close>

definition Kart_reset :: "'c GhostController \<Rightarrow> 'c GhostKart \<Rightarrow> 'c GhostKart" where
  "Kart_reset gcI s =
     do_call KartReset (s\<lparr>controller := map_option (gc_reset gcI) (controller s)\<rparr>)"

text \<open>\<open>GhostKart::reset\<close>: show the node, \<open>Kart::reset()\<close>, then \<open>update(0)\<close>.\<close>

definition reset :: "'c GhostController \<Rightarrow> kart_env \<Rightarrow> 'c GhostKart \<Rightarrow> error + 'c GhostKart" where
  "reset gcI env s = update gcI env 0 (Kart_reset gcI (s\<lparr>node_visible := True\<rparr>))"

text \<open>
  The three vectors grow together in \<open>addReplayEvent\<close> and nowhere else, so they have
  the same length in every state that loading reaches.
\<close>

definition frames_aligned :: "'c GhostKart \<Rightarrow> bool" where
  "frames_aligned s \<longleftrightarrow>
     length (m_all_physic_info s) = length (m_all_transform s) \<and>
     length (m_all_replay_events s) = length (m_all_transform s)"

text \<open>The nitro intensities that a log forwards to \<open>KartGFX::updateNitroGraphics\<close>.\<close>

fun nitro_values :: "call list \<Rightarrow> real list" where
  "nitro_values [] = []"
| "nitro_values (UpdateNitroGraphics v # cs) = v # nitro_values cs"
| "nitro_values (c # cs) = nitro_values cs"

section \<open>Concrete inputs\<close>

text \<open>
  Modelled from the spec: the state of the playback cursor is a frame index, an
  interpolation fraction and an ended flag. \<open>held_cursor\<close> implements the controller's
  interface over that state for a cursor that time does not move and that a reset
  puts at frame 0, fraction 0, not ended; it serves to run the operations on
  concrete inputs.
\<close>

record cursor =
  cur_ended :: bool
  cur_index :: nat
  cur_delta :: real

definition held_cursor :: "cursor GhostController" where
  "held_cursor =
     \<lparr>gc_update = (\<lambda>dt c. c), isReplayEnd = cur_ended,
      getCurrentReplayIndex = cur_index, getReplayDelta = cur_delta,
      addReplayTime = (\<lambda>t c. c),
      gc_reset = (\<lambda>c. \<lparr>cur_ended = False, cur_index = 0, cur_delta = 0\<rparr>)\<rparr>"

definition example_env :: kart_env where
  "example_env =
     \<lparr>getEngineMaxSpeed = 25, getKartLength = 2, getLowestPoint = 1 / 2,
      basis_mul = (\<lambda>q v. v)\<rparr>"

text \<open>
  A ghost kart before any frame is loaded; the constructor passes
  \<open>btTransform(btQuaternion(0, 0, 0, 1))\<close> to \<open>Kart\<close>.
\<close>

definition new_kart :: "'c \<Rightarrow> 'c GhostKart" where
  "new_kart gc =
     \<lparr>m_all_transform = [], m_all_physic_info = [], m_all_replay_events = [],
      m_graphical_y_offset = 0,
      m_transform = \<lparr>origin = \<lparr>vx = 0, vy = 0, vz = 0\<rparr>,
                     rotation = \<lparr>qx = 0, qy = 0, qz = 0, qw = 1\<rparr>\<rparr>,
      m_xyz_front = \<lparr>vx = 0, vy = 0, vz = 0\<rparr>,
      node_visible = True, controller = Some gc, calls = []\<rparr>"

text \<open>
  The spec's example store: two frames at \<open>(0,0,0)\<close> and \<open>(10,0,0)\<close> with speeds
  \<open>5\<close> and \<open>7\<close>; the first has the nitro on, the second is turned half a revolution
  about the x axis.
\<close>

definition frame_a :: "real \<times> btTransform \<times> PhysicInfo \<times> KartReplayEvent" where
  "frame_a =
     (0, \<lparr>origin = \<lparr>vx = 0, vy = 0, vz = 0\<rparr>, rotation = \<lparr>qx = 0, qy = 0, qz = 0, qw = 1\<rparr>\<rparr>,
      \<lparr>m_speed = 5, m_steer = 0, m_suspension_length = [1, 2, 3, 4]\<rparr>,
      \<lparr>m_on_nitro = True, m_on_zipper = False\<rparr>)"

definition frame_b :: "real \<times> btTransform \<times> PhysicInfo \<times> KartReplayEvent" where
  "frame_b =
     (1, \<lparr>origin = \<lparr>vx = 10, vy = 0, vz = 0\<rparr>, rotation = \<lparr>qx = 1, qy = 0, qz = 0, qw = 0\<rparr>\<rparr>,
      \<lparr>m_speed = 7, m_steer = 0, m_suspension_length = [2, 2, 2, 2]\<rparr>,
      \<lparr>m_on_nitro = False, m_on_zipper = True\<rparr>)"

definition example_kart :: "cursor \<Rightarrow> cursor GhostKart" where
  "example_kart c =
     (new_kart c)
       \<lparr>m_all_transform := [fst (snd frame_a), fst (snd frame_b)],
        m_all_physic_info := [fst (snd (snd frame_a)), fst (snd (snd frame_b))],
        m_all_replay_events := [snd (snd (snd frame_a)), snd (snd (snd frame_b))],
        m_graphical_y_offset := - 2\<rparr>"

text \<open>A store of one frame.\<close>

definition one_frame_kart :: "cursor \<Rightarrow> cursor GhostKart" where
  "one_frame_kart c =
     (new_kart c)
       \<lparr>m_all_transform := [fst (snd frame_a)],
        m_all_physic_info := [fst (snd (snd frame_a))],
        m_all_replay_events := [snd (snd (snd frame_a))],
        m_graphical_y_offset := - 2\<rparr>"

section \<open>Lemmas about the quaternion interpolation\<close>

lemma lagrange4:
  "length2 a * length2 b - (qdot a b)\<^sup>2 =
     (qx a * qy b - qy a * qx b)\<^sup>2 + (qx a * qz b - qz a * qx b)\<^sup>2 +
     (qx a * qw b - qw a * qx b)\<^sup>2 + (qy a * qz b - qz a * qy b)\<^sup>2 +
     (qy a * qw b - qw a * qy b)\<^sup>2 + (qz a * qw b - qw a * qz b)\<^sup>2"
  by (simp add: length2_def qdot_def power2_eq_square algebra_simps)

lemma qdot_sq_le: "(qdot a b)\<^sup>2 \<le> length2 a * length2 b"
proof -
  have "0 \<le> length2 a * length2 b - (qdot a b)\<^sup>2"
    unfolding lagrange4 by (intro add_nonneg_nonneg zero_le_power2)
  then show ?thesis by simp
qed

lemma qdot_unit_abs_le: 
  assumes "length2 a = 1" "length2 b = 1" shows "\<bar>qdot a b\<bar> \<le> 1"
proof -
  have "(qdot a b)\<^sup>2 \<le> 1" using qdot_sq_le [of a b] assms by simp
  then show ?thesis by (simp add: abs_square_le_1)
qed

lemma sin_arc_identity:
  fixes a b :: real
  shows "(sin a)\<^sup>2 + (sin b)\<^sup>2 + 2 * sin a * sin b * cos (a + b) = (sin (a + b))\<^sup>2"
proof -
  have ca: "(cos a)\<^sup>2 = 1 - (sin a)\<^sup>2" by (simp add: cos_squared_eq)
  have cb: "(cos b)\<^sup>2 = 1 - (sin b)\<^sup>2" by (simp add: cos_squared_eq)
  have "(sin (a + b))\<^sup>2 = (sin a)\<^sup>2 * (cos b)\<^sup>2 + (cos a)\<^sup>2 * (sin b)\<^sup>2
            + 2 * sin a * sin b * (cos a * cos b)"
    by (simp add: sin_add power2_eq_square algebra_simps)
  also have "\<dots> = (sin a)\<^sup>2 + (sin b)\<^sup>2 + 2 * sin a * sin b * (cos a * cos b - sin a * sin b)"
    unfolding ca cb by (simp add: power2_eq_square algebra_simps)
  finally show ?thesis by (simp add: cos_add)
qed

lemma length2_combination:
  "length2 \<lparr>qx = qx a * s + qx b * r, qy = qy a * s + qy b * r,
            qz = qz a * s + qz b * r, qw = qw a * s + qw b * r\<rparr> =
     s\<^sup>2 * length2 a + r\<^sup>2 * length2 b + 2 * s * r * qdot a b"
  by (simp add: length2_def qdot_def power2_eq_square algebra_simps)

lemma slerp_unit:
  assumes u0: "length2 q0 = 1" and u1: "length2 q1 = 1"
  shows "length2 (slerp q0 q1 t) = 1"
proof -
  define p where "p = qdot q0 q1"
  define sg :: real where "sg = (if p < 0 then - 1 else 1)"
  define th where "th = arccos (sg * p)"
  define d where "d = sin th"
  have sg2: "sg * sg = 1" by (simp add: sg_def)
  have "\<bar>p\<bar> \<le> 1" unfolding p_def by (rule qdot_unit_abs_le [OF u0 u1])
  then have "- 1 \<le> sg * p" "sg * p \<le> 1" by (auto simp: sg_def)
  then have cth: "cos th = sg * p" unfolding th_def by (rule cos_arccos)
  show ?thesis
  proof (cases "d = 0")
    case True
    then show ?thesis using u0 by (simp add: slerp_def Let_def p_def sg_def th_def d_def)
  next
    case False
    define s0 where "s0 = sin ((1 - t) * th) / d"
    define s1 where "s1 = sg * sin (t * th) / d"
    have eq: "slerp q0 q1 t = \<lparr>qx = qx q0 * s0 + qx q1 * s1, qy = qy q0 * s0 + qy q1 * s1,
               qz = qz q0 * s0 + qz q1 * s1, qw = qw q0 * s0 + qw q1 * s1\<rparr>"
      using False by (simp add: slerp_def Let_def p_def sg_def th_def d_def s0_def s1_def)
    have sum: "(1 - t) * th + t * th = th" by (simp add: algebra_simps)
    have "length2 (slerp q0 q1 t) = s0\<^sup>2 + s1\<^sup>2 + 2 * s0 * s1 * p"
      unfolding eq length2_combination using u0 u1 by (simp add: p_def)
    also have "\<dots> = ((sin ((1 - t) * th))\<^sup>2 + (sin (t * th))\<^sup>2
                     + 2 * sin ((1 - t) * th) * sin (t * th) * (sg * p)) / d\<^sup>2"
      using False sg2 by (simp add: s0_def s1_def power2_eq_square field_simps)
    also have "\<dots> = (sin th)\<^sup>2 / d\<^sup>2"
      using sin_arc_identity [of "(1 - t) * th" "t * th"] unfolding sum cth by simp
    also have "\<dots> = 1" using False by (simp add: d_def)
    finally show ?thesis .
  qed
qed

lemma slerp_zero: "slerp q0 q1 0 = q0"
  by (simp add: slerp_def Let_def)

lemma qlerp_length2:
  assumes "length2 a = 1" "length2 b = 1"
  shows "length2 (qlerp a b t) = 1 - 2 * t * (1 - t) * (1 - qdot a b)"
proof -
  have "qlerp a b t = \<lparr>qx = qx a * (1 - t) + qx b * t, qy = qy a * (1 - t) + qy b * t,
            qz = qz a * (1 - t) + qz b * t, qw = qw a * (1 - t) + qw b * t\<rparr>"
    by (simp add: qlerp_def mult.commute)
  then have "length2 (qlerp a b t) = (1 - t)\<^sup>2 * length2 a + t\<^sup>2 * length2 b + 2 * (1 - t) * t * qdot a b"
    by (simp only: length2_combination)
  then show ?thesis using assms by (simp add: power2_eq_square algebra_simps)
qed

lemma unit_distinct_dot:
  assumes "length2 a = 1" "length2 b = 1" "a \<noteq> b"
  shows "qdot a b < 1"
proof -
  have d: "(qx a - qx b)\<^sup>2 + (qy a - qy b)\<^sup>2 + (qz a - qz b)\<^sup>2 + (qw a - qw b)\<^sup>2
        = length2 a + length2 b - 2 * qdot a b"
    by (simp add: length2_def qdot_def power2_eq_square algebra_simps)
  have "qx a \<noteq> qx b \<or> qy a \<noteq> qy b \<or> qz a \<noteq> qz b \<or> qw a \<noteq> qw b"
    using \<open>a \<noteq> b\<close> by (auto intro: btQuaternion.equality)
  then have "0 < (qx a - qx b)\<^sup>2 + (qy a - qy b)\<^sup>2 + (qz a - qz b)\<^sup>2 + (qw a - qw b)\<^sup>2"
    by (auto simp: add_pos_nonneg add_nonneg_pos)
  then show ?thesis using d assms by simp
qed

lemma slerp_not_lerp:
  assumes u0: "length2 a = 1" and u1: "length2 b = 1" and ne: "a \<noteq> b"
    and t: "0 < t" "t < 1"
  shows "slerp a b t \<noteq> qlerp a b t"
proof
  assume e: "slerp a b t = qlerp a b t"
  have "length2 (qlerp a b t) = 1" using slerp_unit [OF u0 u1, of t] e by simp
  then have "t * (1 - t) * (1 - qdot a b) = 0" using qlerp_length2 [OF u0 u1, of t] by simp
  moreover have "0 < t * (1 - t) * (1 - qdot a b)"
    using t unit_distinct_dot [OF u0 u1 ne] by simp
  ultimately show False by linarith
qed

lemma slerp_angle:
  assumes u0: "length2 q0 = 1" and u1: "length2 q1 = 1"
  shows "qdot q0 (slerp q0 q1 t) = cos (t * arccos \<bar>qdot q0 q1\<bar>)"
proof -
  define p where "p = qdot q0 q1"
  define sg :: real where "sg = (if p < 0 then - 1 else 1)"
  define th where "th = arccos (sg * p)"
  define d where "d = sin th"
  have ab: "sg * p = \<bar>p\<bar>" by (simp add: sg_def)
  have "\<bar>p\<bar> \<le> 1" unfolding p_def by (rule qdot_unit_abs_le [OF u0 u1])
  then have b: "- 1 \<le> sg * p" "sg * p \<le> 1" by (auto simp: sg_def)
  then have cth: "cos th = sg * p" unfolding th_def by (rule cos_arccos)
  have th0: "0 \<le> th" "th \<le> pi" unfolding th_def using b by (simp_all add: arccos_lbound arccos_ubound)
  show ?thesis
  proof (cases "d = 0")
    case True
    then have "th = 0 \<or> th = pi" using th0 sin_gt_zero [of th] unfolding d_def
      by (cases "th = 0"; cases "th = pi") auto
    moreover have "th \<noteq> pi"
    proof
      assume "th = pi"
      then have "sg * p = - 1" using cth by simp
      then show False using ab by simp
    qed
    ultimately have z: "arccos \<bar>p\<bar> = 0" by (simp add: th_def ab)
    have "slerp q0 q1 t = q0"
      using True by (simp add: slerp_def Let_def p_def sg_def th_def d_def)
    then show ?thesis using u0 z by (simp add: length2_def p_def)
  next
    case False
    define s0 where "s0 = sin ((1 - t) * th) / d"
    define s1 where "s1 = sg * sin (t * th) / d"
    have eq: "slerp q0 q1 t = \<lparr>qx = qx q0 * s0 + qx q1 * s1, qy = qy q0 * s0 + qy q1 * s1,
               qz = qz q0 * s0 + qz q1 * s1, qw = qw q0 * s0 + qw q1 * s1\<rparr>"
      using False by (simp add: slerp_def Let_def p_def sg_def th_def d_def s0_def s1_def)
    have "qdot q0 (slerp q0 q1 t) = s0 * length2 q0 + s1 * p"
      unfolding eq by (simp add: qdot_def length2_def p_def algebra_simps)
    also have "\<dots> = (sin ((1 - t) * th) + sin (t * th) * cos th) / d"
      using u0 False by (simp add: s0_def s1_def cth field_simps)
    also have "sin ((1 - t) * th) = sin th * cos (t * th) - cos th * sin (t * th)"
      using sin_diff [of th "t * th"] by (simp add: algebra_simps)
    also have "(sin th * cos (t * th) - cos th * sin (t * th) + sin (t * th) * cos th) / d
                 = cos (t * th)"
      using False by (simp add: d_def)
    finally have "qdot q0 (slerp q0 q1 t) = cos (t * th)" .
    also have "th = arccos \<bar>p\<bar>" by (simp add: th_def ab)
    finally show ?thesis by (simp add: p_def)
  qed
qed

section \<open>Lemmas about the operations\<close>

lemma nitro_values_append: "nitro_values (xs @ ys) = nitro_values xs @ nitro_values ys"
  by (induction xs rule: nitro_values.induct) simp_all

lemma frames_aligned_new_kart: "frames_aligned (new_kart gc)"
  by (simp add: frames_aligned_def new_kart_def)

lemma addReplayEvent_total:
  assumes "controller s = Some gc"
  shows "\<exists>s'. addReplayEvent gcI env time tr phys kre s = Inr s' \<and>
           controller s' = Some (addReplayTime gcI time gc) \<and>
           m_all_transform s' = m_all_transform s @ [tr] \<and>
           m_all_physic_info s' = m_all_physic_info s @ [phys] \<and>
           m_all_replay_events s' = m_all_replay_events s @ [kre]"
  using assms by (simp add: addReplayEvent_def Let_def do_call_def)

lemma addReplayEvent_aligned:
  assumes "addReplayEvent gcI env time tr phys kre s = Inr s'" "frames_aligned s"
  shows "frames_aligned s'"
  using assms
  by (auto simp: addReplayEvent_def Let_def do_call_def frames_aligned_def
           split: option.splits if_splits)

lemma addReplayEvents_aligned:
  assumes "addReplayEvents gcI env fs s = Inr s'" "frames_aligned s"
  shows "frames_aligned s'"
  using assms
proof (induction fs arbitrary: s)
  case Nil
  then show ?case by simp
next
  case (Cons f fs)
  obtain time tr phys kre where f: "f = (time, tr, phys, kre)" by (cases f) auto
  from Cons.prems(1) obtain s1 where s1: "addReplayEvent gcI env time tr phys kre s = Inr s1"
      "addReplayEvents gcI env fs s1 = Inr s'"
    unfolding f by (auto split: sum.splits)
  from Cons.IH [OF s1(2) addReplayEvent_aligned [OF s1(1) Cons.prems(2)]] show ?case .
qed

lemma addReplayEvent_later:
  assumes "controller s = Some gc" "m_all_physic_info s \<noteq> []"
  shows "\<exists>s'. addReplayEvent gcI env time tr phys kre s = Inr s' \<and>
           controller s' = Some (addReplayTime gcI time gc) \<and>
           m_all_physic_info s' \<noteq> [] \<and>
           m_graphical_y_offset s' = m_graphical_y_offset s \<and> calls s' = calls s"
  using assms by (simp add: addReplayEvent_def Let_def do_call_def)

lemma addReplayEvents_later:
  assumes "controller s = Some gc" "m_all_physic_info s \<noteq> []"
  shows "\<exists>s' gc'. addReplayEvents gcI env fs s = Inr s' \<and> controller s' = Some gc' \<and>
           m_graphical_y_offset s' = m_graphical_y_offset s \<and> calls s' = calls s"
  using assms
proof (induction fs arbitrary: s gc)
  case Nil
  then show ?case by simp
next
  case (Cons f fs)
  obtain time tr phys kre where f: "f = (time, tr, phys, kre)" by (cases f) auto
  from addReplayEvent_later [OF Cons.prems, of gcI env time tr phys kre]
  obtain s1 where s1: "addReplayEvent gcI env time tr phys kre s = Inr s1"
      "controller s1 = Some (addReplayTime gcI time gc)" "m_all_physic_info s1 \<noteq> []"
      "m_graphical_y_offset s1 = m_graphical_y_offset s" "calls s1 = calls s"
    by blast
  from Cons.IH [OF s1(2) s1(3)] s1 f show ?case by auto
qed

lemma fold_suspension:
  assumes "length l = 4"
  shows "fold (\<lambda>i f. f + l ! i) [0..<4] (0::real) = sum_list l"
proof -
  obtain a b c d where l: "l = [a, b, c, d]"
    using assms by (auto simp: length_Suc_conv numeral_eq_Suc)
  have "[0..<4] = [0, Suc 0, Suc (Suc 0), Suc (Suc (Suc 0))]"
    by (simp add: numeral_eq_Suc upt_rec)
  then show ?thesis by (simp add: l)
qed

lemma addReplayEvent_first:
  assumes "controller s = Some gc" "m_all_physic_info s = []"
    "length (m_suspension_length phys) = 4"
  shows "\<exists>s'. addReplayEvent gcI env time tr phys kre s = Inr s' \<and>
           controller s' = Some (addReplayTime gcI time gc) \<and>
           m_all_physic_info s' \<noteq> [] \<and>
           m_graphical_y_offset s' =
             - (sum_list (m_suspension_length phys) / 4) + getLowestPoint env \<and>
           calls s' = calls s @ [SetDefaultSuspension]"
  using assms by (simp add: addReplayEvent_def Let_def do_call_def fold_suspension)

lemma btTransform_set_both:
  "t\<lparr>origin := a, rotation := b\<rparr> = \<lparr>origin = a, rotation = b\<rparr>"
  by (cases t) simp

lemma update_active:
  assumes "controller s = Some gc0" "gc = gc_update gcI dt gc0" "\<not> isReplayEnd gcI gc"
    "idx = getCurrentReplayIndex gcI gc" "rd = getReplayDelta gcI gc"
    "idx + 1 < length (m_all_transform s)" "frames_aligned s"
    "p = vadd (vscale (1 - rd) (origin (m_all_transform s ! idx)))
              (vscale rd (origin (m_all_transform s ! (idx + 1))))"
    "q = slerp (rotation (m_all_transform s ! idx)) (rotation (m_all_transform s ! (idx + 1))) rd"
    "nf = (if m_on_nitro (m_all_replay_events s ! idx)
           then min 1 (\<bar>m_speed (m_all_physic_info s ! idx)\<bar> / getEngineMaxSpeed env) else 0)"
  shows "\<exists>s'. update gcI env dt s = Inr s' \<and>
     controller s' = Some gc \<and> node_visible s' = node_visible s \<and>
     m_all_transform s' = m_all_transform s \<and> m_all_physic_info s' = m_all_physic_info s \<and>
     m_all_replay_events s' = m_all_replay_events s \<and>
     m_graphical_y_offset s' = m_graphical_y_offset s \<and>
     m_transform s' = \<lparr>origin = p, rotation = q\<rparr> \<and>
     m_xyz_front s' = trans_apply env \<lparr>origin = p, rotation = q\<rparr>
                        \<lparr>vx = 0, vy = 0, vz = getKartLength env * 0.5\<rparr> \<and>
     calls s' = calls s @ [UpdateNitroGraphics nf] @
                  (if m_on_zipper (m_all_replay_events s ! idx) then [ShowZipperFire] else []) @
                  [UpdateGraphics dt (basis_mul env q \<lparr>vx = 0, vy = m_graphical_y_offset s, vz = 0\<rparr>)
                     \<lparr>qx = 0, qy = 0, qz = 0, qw = 1\<rparr>,
                   KartModelUpdate dt (dt * m_speed (m_all_physic_info s ! idx))
                     (m_steer (m_all_physic_info s ! idx)) (m_speed (m_all_physic_info s ! idx)) idx,
                   KartGFXUpdate dt]"
  using assms
  by (simp add: update_def Let_def frames_aligned_def do_call_def setXYZ_def setRotation_def min_def
           btTransform_set_both)

lemma update_ended:
  assumes "controller s = Some gc0" "isReplayEnd gcI (gc_update gcI dt gc0)"
  shows "update gcI env dt s =
           Inr (s\<lparr>controller := Some (gc_update gcI dt gc0), node_visible := False\<rparr>)"
  using assms by (simp add: update_def)

lemma vlerp_zero: "vadd (vscale 1 a) (vscale 0 b) = a"
  by (simp add: vadd_def vscale_def)

lemma btTransform_eta: "\<lparr>origin = origin t, rotation = rotation t\<rparr> = t"
  by (cases t) simp

section \<open>The claims\<close>

text \<open>
  C1. On a tick that does not end, with a store of at least \<open>idx + 2\<close> frames and a
  cursor at index \<open>idx\<close> with fraction \<open>rd\<close> in \<open>[0, 1)\<close>, \<open>update\<close> sets the
  position to \<open>(1 - rd) * P[idx] + rd * P[idx + 1]\<close>; at \<open>rd = 0\<close> the position is
  \<open>P[idx]\<close>.
\<close>

theorem update_position_lerp:
  assumes "controller s = Some gc0"
    and "\<not> isReplayEnd gcI (gc_update gcI dt gc0)"
    and "getCurrentReplayIndex gcI (gc_update gcI dt gc0) = idx"
    and "getReplayDelta gcI (gc_update gcI dt gc0) = rd"
    and "0 \<le> rd" and "rd < 1"
    and "idx + 2 \<le> length (m_all_transform s)" and "frames_aligned s"
  shows "\<exists>s'. update gcI env dt s = Inr s' \<and>
           origin (m_transform s') =
             vadd (vscale (1 - rd) (origin (m_all_transform s ! idx)))
                  (vscale rd (origin (m_all_transform s ! (idx + 1)))) \<and>
           (rd = 0 \<longrightarrow> origin (m_transform s') = origin (m_all_transform s ! idx))"
proof -
  have "idx + 1 < length (m_all_transform s)" using assms(7) by simp
  from update_active [OF assms(1) refl assms(2) assms(3) [symmetric] assms(4) [symmetric]
      this assms(8) refl refl refl, where env = env]
  obtain s' where s': "update gcI env dt s = Inr s'"
    "origin (m_transform s') =
       vadd (vscale (1 - rd) (origin (m_all_transform s ! idx)))
            (vscale rd (origin (m_all_transform s ! (idx + 1))))"
    by auto
  then show ?thesis by (auto simp: vlerp_zero)
qed

text \<open>The spec's example: halfway between \<open>(0,0,0)\<close> and \<open>(10,0,0)\<close> is \<open>(5,0,0)\<close>.\<close>

theorem update_position_lerp_witness:
  "(\<exists>s'. update held_cursor example_env 0
            (example_kart \<lparr>cur_ended = False, cur_index = 0, cur_delta = 1 / 2\<rparr>) = Inr s' \<and>
          origin (m_transform s') = \<lparr>vx = 5, vy = 0, vz = 0\<rparr>) \<and>
   (\<exists>s'. update held_cursor example_env 0
            (example_kart \<lparr>cur_ended = False, cur_index = 0, cur_delta = 0\<rparr>) = Inr s' \<and>
          origin (m_transform s') = \<lparr>vx = 0, vy = 0, vz = 0\<rparr>)"
  using update_position_lerp [of "example_kart \<lparr>cur_ended = False, cur_index = 0, cur_delta = 1 / 2\<rparr>"
      "\<lparr>cur_ended = False, cur_index = 0, cur_delta = 1 / 2\<rparr>" held_cursor 0 0 "1 / 2" example_env]
    update_position_lerp [of "example_kart \<lparr>cur_ended = False, cur_index = 0, cur_delta = 0\<rparr>"
      "\<lparr>cur_ended = False, cur_index = 0, cur_delta = 0\<rparr>" held_cursor 0 0 0 example_env]
  by (simp add: example_kart_def new_kart_def held_cursor_def frames_aligned_def frame_a_def
        frame_b_def vadd_def vscale_def)

text \<open>
  C2. For a cursor index \<open>idx\<close> inside the store, \<open>getSpeed\<close> returns the recorded
  speed of frame \<open>idx\<close>; the interpolation fraction and frame \<open>idx + 1\<close> play no
  part in it.
\<close>

theorem getSpeed_recorded:
  assumes "controller s = Some gc"
    and "getCurrentReplayIndex gcI gc = idx"
    and "idx < length (m_all_physic_info s)"
  shows "getSpeed gcI s = Inr (m_speed (m_all_physic_info s ! idx))"
  using assms by (simp add: getSpeed_def)

text \<open>The spec's example: speeds \<open>5\<close> and \<open>7\<close>, cursor at \<open>idx = 0\<close>, \<open>rd = 0.5\<close>.\<close>

theorem getSpeed_recorded_witness:
  "getSpeed held_cursor (example_kart \<lparr>cur_ended = False, cur_index = 0, cur_delta = 1 / 2\<rparr>)
     = Inr 5"
  using getSpeed_recorded [of "example_kart \<lparr>cur_ended = False, cur_index = 0, cur_delta = 1 / 2\<rparr>"
      "\<lparr>cur_ended = False, cur_index = 0, cur_delta = 1 / 2\<rparr>" held_cursor 0]
  by (simp add: example_kart_def new_kart_def held_cursor_def frame_a_def frame_b_def)

text \<open>
  C3. On a tick that does not end, the one nitro intensity that \<open>update\<close> forwards is
  \<open>min 1 (\<bar>speed\<bar> / maxEngineSpeed)\<close> of frame \<open>idx\<close> when its nitro flag is set and
  \<open>0\<close> otherwise, and it lies in \<open>[0, 1]\<close> whatever the recorded speed. The engine's
  maximum speed is positive.
\<close>

theorem update_nitro_intensity:
  assumes "controller s = Some gc0"
    and "\<not> isReplayEnd gcI (gc_update gcI dt gc0)"
    and "getCurrentReplayIndex gcI (gc_update gcI dt gc0) = idx"
    and "idx + 1 < length (m_all_transform s)" and "frames_aligned s"
    and "0 < getEngineMaxSpeed env"
    and "v = (if m_on_nitro (m_all_replay_events s ! idx)
              then min 1 (\<bar>m_speed (m_all_physic_info s ! idx)\<bar> / getEngineMaxSpeed env)
              else 0)"
  shows "\<exists>s'. update gcI env dt s = Inr s' \<and>
           nitro_values (calls s') = nitro_values (calls s) @ [v] \<and> 0 \<le> v \<and> v \<le> 1"
proof -
  from update_active [OF assms(1) refl assms(2) assms(3) [symmetric] refl assms(4) assms(5)
      refl refl assms(7)]
  obtain s' where s': "update gcI env dt s = Inr s'"
    "calls s' = calls s @ [UpdateNitroGraphics v] @
       (if m_on_zipper (m_all_replay_events s ! idx) then [ShowZipperFire] else []) @
       [UpdateGraphics dt
          (basis_mul env
             (slerp (rotation (m_all_transform s ! idx))
                (rotation (m_all_transform s ! (idx + 1)))
                (getReplayDelta gcI (gc_update gcI dt gc0)))
             \<lparr>vx = 0, vy = m_graphical_y_offset s, vz = 0\<rparr>)
          \<lparr>qx = 0, qy = 0, qz = 0, qw = 1\<rparr>,
        KartModelUpdate dt (dt * m_speed (m_all_physic_info s ! idx))
          (m_steer (m_all_physic_info s ! idx)) (m_speed (m_all_physic_info s ! idx)) idx,
        KartGFXUpdate dt]"
    by auto
  have nv: "nitro_values (calls s') = nitro_values (calls s) @ [v]"
    unfolding s'(2) by (simp add: nitro_values_append)
  have "0 \<le> \<bar>m_speed (m_all_physic_info s ! idx)\<bar> / getEngineMaxSpeed env"
    using assms(6) by simp
  then have "0 \<le> v" "v \<le> 1" unfolding assms(7) by simp_all
  with s'(1) nv show ?thesis by blast
qed

text \<open>A speed of \<open>5\<close> against a maximum of \<open>25\<close>, and against a maximum of \<open>4\<close>.\<close>

theorem update_nitro_intensity_witness:
  "(\<exists>s'. update held_cursor example_env 0
            (example_kart \<lparr>cur_ended = False, cur_index = 0, cur_delta = 1 / 2\<rparr>) = Inr s' \<and>
          nitro_values (calls s') = [1 / 5]) \<and>
   (\<exists>s'. update held_cursor (example_env\<lparr>getEngineMaxSpeed := 4\<rparr>) 0
            (example_kart \<lparr>cur_ended = False, cur_index = 0, cur_delta = 1 / 2\<rparr>) = Inr s' \<and>
          nitro_values (calls s') = [1])"
  using update_nitro_intensity [of "example_kart \<lparr>cur_ended = False, cur_index = 0, cur_delta = 1 / 2\<rparr>"
      "\<lparr>cur_ended = False, cur_index = 0, cur_delta = 1 / 2\<rparr>" held_cursor 0 0 example_env "1 / 5"]
    update_nitro_intensity [of "example_kart \<lparr>cur_ended = False, cur_index = 0, cur_delta = 1 / 2\<rparr>"
      "\<lparr>cur_ended = False, cur_index = 0, cur_delta = 1 / 2\<rparr>" held_cursor 0 0
      "example_env\<lparr>getEngineMaxSpeed := 4\<rparr>" 1]
  by (simp add: example_kart_def new_kart_def held_cursor_def frames_aligned_def frame_a_def
        frame_b_def example_env_def)

text \<open>
  C4. On a tick that does not end, for unit orientation quaternions in the frames
  \<open>idx\<close> and \<open>idx + 1\<close> and \<open>rd\<close> in \<open>[0, 1]\<close>, the orientation that \<open>update\<close> sets is
  the spherical interpolation of the two: it is a unit quaternion, its angle to the
  first frame's orientation is the fraction \<open>rd\<close> of the shorter arc between the two,
  and strictly between two different orientations it is not their linear blend.
\<close>

theorem update_orientation_slerp:
  assumes "controller s = Some gc0"
    and "\<not> isReplayEnd gcI (gc_update gcI dt gc0)"
    and "getCurrentReplayIndex gcI (gc_update gcI dt gc0) = idx"
    and "getReplayDelta gcI (gc_update gcI dt gc0) = rd"
    and "0 \<le> rd" and "rd \<le> 1"
    and "idx + 1 < length (m_all_transform s)" and "frames_aligned s"
    and "q0 = rotation (m_all_transform s ! idx)"
    and "q1 = rotation (m_all_transform s ! (idx + 1))"
    and "length2 q0 = 1" and "length2 q1 = 1"
  shows "\<exists>s'. update gcI env dt s = Inr s' \<and>
           rotation (m_transform s') = slerp q0 q1 rd \<and>
           length2 (rotation (m_transform s')) = 1 \<and>
           qdot q0 (rotation (m_transform s')) = cos (rd * arccos \<bar>qdot q0 q1\<bar>) \<and>
           (0 < rd \<and> rd < 1 \<and> q0 \<noteq> q1 \<longrightarrow> rotation (m_transform s') \<noteq> qlerp q0 q1 rd)"
proof -
  from update_active [OF assms(1) refl assms(2) assms(3) [symmetric] assms(4) [symmetric]
      assms(7) assms(8) refl refl refl, where env = env]
  obtain s' where s': "update gcI env dt s = Inr s'"
    "rotation (m_transform s') = slerp q0 q1 rd"
    unfolding assms(9) assms(10) by auto
  have "length2 (slerp q0 q1 rd) = 1" by (rule slerp_unit [OF assms(11) assms(12)])
  moreover have "qdot q0 (slerp q0 q1 rd) = cos (rd * arccos \<bar>qdot q0 q1\<bar>)"
    by (rule slerp_angle [OF assms(11) assms(12)])
  moreover have "0 < rd \<and> rd < 1 \<and> q0 \<noteq> q1 \<longrightarrow> slerp q0 q1 rd \<noteq> qlerp q0 q1 rd"
    using slerp_not_lerp [OF assms(11) assms(12)] by blast
  ultimately show ?thesis using s' by auto
qed

text \<open>
  A quarter turn: halfway between the identity and the half turn about the x axis.
\<close>

theorem update_orientation_slerp_witness:
  "\<exists>s'. update held_cursor example_env 0
           (example_kart \<lparr>cur_ended = False, cur_index = 0, cur_delta = 1 / 2\<rparr>) = Inr s' \<and>
         length2 (rotation (m_transform s')) = 1 \<and>
         rotation (m_transform s') \<noteq>
           qlerp \<lparr>qx = 0, qy = 0, qz = 0, qw = 1\<rparr> \<lparr>qx = 1, qy = 0, qz = 0, qw = 0\<rparr> (1 / 2)"
proof -
  let ?c = "\<lparr>cur_ended = False, cur_index = 0, cur_delta = 1 / 2\<rparr>"
  let ?a = "\<lparr>qx = 0, qy = 0, qz = 0, qw = 1 :: real\<rparr>"
  let ?b = "\<lparr>qx = 1, qy = 0, qz = 0, qw = 0 :: real\<rparr>"
  have 1: "controller (example_kart ?c) = Some ?c"
    by (simp add: example_kart_def new_kart_def)
  have 2: "\<not> isReplayEnd held_cursor (gc_update held_cursor 0 ?c)"
    by (simp add: held_cursor_def)
  have 3: "getCurrentReplayIndex held_cursor (gc_update held_cursor 0 ?c) = 0"
    by (simp add: held_cursor_def)
  have 4: "getReplayDelta held_cursor (gc_update held_cursor 0 ?c) = 1 / 2"
    by (simp add: held_cursor_def)
  have 7: "0 + 1 < length (m_all_transform (example_kart ?c))"
    by (simp add: example_kart_def new_kart_def)
  have 8: "frames_aligned (example_kart ?c)"
    by (simp add: example_kart_def new_kart_def frames_aligned_def)
  have 9: "?a = rotation (m_all_transform (example_kart ?c) ! 0)"
    by (simp add: example_kart_def new_kart_def frame_a_def)
  have 10: "?b = rotation (m_all_transform (example_kart ?c) ! (0 + 1))"
    by (simp add: example_kart_def new_kart_def frame_b_def)
  have 11: "length2 ?a = 1" by (simp add: length2_def qdot_def)
  have 12: "length2 ?b = 1" by (simp add: length2_def qdot_def)
  have ne: "?a \<noteq> ?b" by simp
  from update_orientation_slerp [OF 1 2 3 4 _ _ 7 8 9 10 11 12, of example_env] ne
  show ?thesis by auto
qed

text \<open>
  C5. When the cursor reports the end after advancing, \<open>update\<close> hides the node and
  returns: the pose, the front point and the log of calls (nitro intensity, zipper,
  animation) are as before; only the controller and the visibility have changed.
\<close>

theorem update_ended_no_output:
  assumes "controller s = Some gc0"
    and "isReplayEnd gcI (gc_update gcI dt gc0)"
  shows "\<exists>s'. update gcI env dt s = Inr s' \<and> \<not> node_visible s' \<and>
           m_transform s' = m_transform s \<and> m_xyz_front s' = m_xyz_front s \<and>
           calls s' = calls s \<and>
           s' = s\<lparr>controller := Some (gc_update gcI dt gc0), node_visible := False\<rparr>"
  using update_ended [OF assms] by simp

text \<open>
  The example store with an ended cursor.
\<close>

theorem update_ended_no_output_witness:
  "\<exists>s'. update held_cursor example_env 1
           (example_kart \<lparr>cur_ended = True, cur_index = 1, cur_delta = 0\<rparr>) = Inr s' \<and>
         \<not> node_visible s' \<and>
         m_transform s' = m_transform (example_kart \<lparr>cur_ended = True, cur_index = 1, cur_delta = 0\<rparr>) \<and>
         m_xyz_front s' = \<lparr>vx = 0, vy = 0, vz = 0\<rparr> \<and> calls s' = []"
  using update_ended_no_output [of "example_kart \<lparr>cur_ended = True, cur_index = 1, cur_delta = 0\<rparr>"
      "\<lparr>cur_ended = True, cur_index = 1, cur_delta = 0\<rparr>" held_cursor 1 example_env]
  by (simp add: example_kart_def new_kart_def held_cursor_def)

text \<open>
  C6. \<open>reset\<close> shows the node, resets the cursor and runs \<open>update(0)\<close>. When the
  reset cursor stands at frame 0 with fraction 0 and has not ended, on a store of at
  least two frames, the kart after \<open>reset\<close> is visible and its pose is frame 0; pose,
  front point and the calls made are those of the first \<open>update(0)\<close> on the loaded
  kart \<open>s0\<close> (the same frames and offset, its cursor at the same place).
\<close>

theorem reset_replays_first_frame:
  assumes "controller s = Some gc0"
    and "gc1 = gc_update gcI 0 (gc_reset gcI gc0)"
    and "\<not> isReplayEnd gcI gc1"
    and "getCurrentReplayIndex gcI gc1 = 0"
    and "getReplayDelta gcI gc1 = 0"
    and "2 \<le> length (m_all_transform s)" and "frames_aligned s"
    and "controller s0 = Some gcL" and "gc_update gcI 0 gcL = gc1"
    and "m_all_transform s0 = m_all_transform s"
    and "m_all_physic_info s0 = m_all_physic_info s"
    and "m_all_replay_events s0 = m_all_replay_events s"
    and "m_graphical_y_offset s0 = m_graphical_y_offset s"
    and "node_visible s0"
  shows "\<exists>s' s0' out. reset gcI env s = Inr s' \<and> update gcI env 0 s0 = Inr s0' \<and>
           node_visible s' \<and> controller s' = Some gc1 \<and>
           m_transform s' = m_all_transform s ! 0 \<and>
           node_visible s0' \<and> controller s0' = Some gc1 \<and>
           m_transform s0' = m_transform s' \<and> m_xyz_front s0' = m_xyz_front s' \<and>
           calls s0' = calls s0 @ out \<and> calls s' = calls s @ [KartReset] @ out"
proof -
  define sr where "sr = Kart_reset gcI (s\<lparr>node_visible := True\<rparr>)"
  have r: "reset gcI env s = update gcI env 0 sr" by (simp add: reset_def sr_def)
  have sr: "controller sr = Some (gc_reset gcI gc0)" "node_visible sr"
    "m_all_transform sr = m_all_transform s" "m_all_physic_info sr = m_all_physic_info s"
    "m_all_replay_events sr = m_all_replay_events s"
    "m_graphical_y_offset sr = m_graphical_y_offset s" "calls sr = calls s @ [KartReset]"
    using assms(1) by (simp_all add: sr_def Kart_reset_def do_call_def)
  have len: "0 + 1 < length (m_all_transform sr)" "0 + 1 < length (m_all_transform s0)"
    using assms(6) assms(10) sr(3) by simp_all
  have al: "frames_aligned sr" "frames_aligned s0"
    using assms(7) assms(10-12) sr(3-5) by (simp_all add: frames_aligned_def)
  have i1: "0 = getCurrentReplayIndex gcI gc1" and d1: "0 = getReplayDelta gcI gc1"
    using assms(4) assms(5) by simp_all
  from update_active [OF sr(1) assms(2) assms(3) i1 d1 len(1) al(1) refl refl refl,
      where env = env]
  obtain s' where s': "update gcI env 0 sr = Inr s'" "controller s' = Some gc1"
    "node_visible s' = node_visible sr"
    "m_transform s' =
       \<lparr>origin = vadd (vscale (1 - 0) (origin (m_all_transform sr ! 0)))
                       (vscale 0 (origin (m_all_transform sr ! (0 + 1)))),
        rotation = slerp (rotation (m_all_transform sr ! 0))
                     (rotation (m_all_transform sr ! (0 + 1))) 0\<rparr>"
    "m_xyz_front s' =
       trans_apply env
         \<lparr>origin = vadd (vscale (1 - 0) (origin (m_all_transform sr ! 0)))
                         (vscale 0 (origin (m_all_transform sr ! (0 + 1)))),
          rotation = slerp (rotation (m_all_transform sr ! 0))
                       (rotation (m_all_transform sr ! (0 + 1))) 0\<rparr>
         \<lparr>vx = 0, vy = 0, vz = getKartLength env * 0.5\<rparr>"
    "calls s' = calls sr @ [UpdateNitroGraphics
         (if m_on_nitro (m_all_replay_events sr ! 0)
          then min 1 (\<bar>m_speed (m_all_physic_info sr ! 0)\<bar> / getEngineMaxSpeed env) else 0)] @
       (if m_on_zipper (m_all_replay_events sr ! 0) then [ShowZipperFire] else []) @
       [UpdateGraphics 0
          (basis_mul env
             (slerp (rotation (m_all_transform sr ! 0))
                (rotation (m_all_transform sr ! (0 + 1))) 0)
             \<lparr>vx = 0, vy = m_graphical_y_offset sr, vz = 0\<rparr>)
          \<lparr>qx = 0, qy = 0, qz = 0, qw = 1\<rparr>,
        KartModelUpdate 0 (0 * m_speed (m_all_physic_info sr ! 0))
          (m_steer (m_all_physic_info sr ! 0)) (m_speed (m_all_physic_info sr ! 0)) 0,
        KartGFXUpdate 0]"
    by blast
  from update_active [OF assms(8) assms(9) [symmetric] assms(3) i1 d1 len(2) al(2)
      refl refl refl, where env = env]
  obtain s0' where s0': "update gcI env 0 s0 = Inr s0'" "controller s0' = Some gc1"
    "node_visible s0' = node_visible s0"
    "m_transform s0' =
       \<lparr>origin = vadd (vscale (1 - 0) (origin (m_all_transform s0 ! 0)))
                       (vscale 0 (origin (m_all_transform s0 ! (0 + 1)))),
        rotation = slerp (rotation (m_all_transform s0 ! 0))
                     (rotation (m_all_transform s0 ! (0 + 1))) 0\<rparr>"
    "m_xyz_front s0' =
       trans_apply env
         \<lparr>origin = vadd (vscale (1 - 0) (origin (m_all_transform s0 ! 0)))
                         (vscale 0 (origin (m_all_transform s0 ! (0 + 1)))),
          rotation = slerp (rotation (m_all_transform s0 ! 0))
                       (rotation (m_all_transform s0 ! (0 + 1))) 0\<rparr>
         \<lparr>vx = 0, vy = 0, vz = getKartLength env * 0.5\<rparr>"
    "calls s0' = calls s0 @ [UpdateNitroGraphics
         (if m_on_nitro (m_all_replay_events s0 ! 0)
          then min 1 (\<bar>m_speed (m_all_physic_info s0 ! 0)\<bar> / getEngineMaxSpeed env) else 0)] @
       (if m_on_zipper (m_all_replay_events s0 ! 0) then [ShowZipperFire] else []) @
       [UpdateGraphics 0
          (basis_mul env
             (slerp (rotation (m_all_transform s0 ! 0))
                (rotation (m_all_transform s0 ! (0 + 1))) 0)
             \<lparr>vx = 0, vy = m_graphical_y_offset s0, vz = 0\<rparr>)
          \<lparr>qx = 0, qy = 0, qz = 0, qw = 1\<rparr>,
        KartModelUpdate 0 (0 * m_speed (m_all_physic_info s0 ! 0))
          (m_steer (m_all_physic_info s0 ! 0)) (m_speed (m_all_physic_info s0 ! 0)) 0,
        KartGFXUpdate 0]"
    by blast
  have pose: "m_transform s' = m_all_transform s ! 0"
    unfolding s'(4) sr(3) by (simp add: slerp_zero vlerp_zero btTransform_eta)
  have same: "m_transform s0' = m_transform s'" "m_xyz_front s0' = m_xyz_front s'"
    unfolding s'(4) s'(5) s0'(4) s0'(5) sr(3) assms(10) by simp_all
  have vis: "node_visible s'" "node_visible s0'"
    using s'(3) sr(2) s0'(3) assms(14) by simp_all
  have out: "\<exists>out. calls s0' = calls s0 @ out \<and> calls s' = calls s @ [KartReset] @ out"
    unfolding s'(6) s0'(6) sr(3-7) assms(10-13) by simp
  from r s'(1) s'(2) s0'(1) s0'(2) pose same vis out show ?thesis by auto
qed

text \<open>
  An ended replay of the example store, reset.
\<close>

theorem reset_replays_first_frame_witness:
  "\<exists>s' s0'. reset held_cursor example_env
           ((example_kart \<lparr>cur_ended = True, cur_index = 1, cur_delta = 0\<rparr>)
              \<lparr>m_transform := fst (snd frame_b), node_visible := False\<rparr>) = Inr s' \<and>
         update held_cursor example_env 0
           (example_kart \<lparr>cur_ended = False, cur_index = 0, cur_delta = 0\<rparr>) = Inr s0' \<and>
         node_visible s' \<and> m_transform s' = fst (snd frame_a) \<and>
         m_transform s0' = m_transform s' \<and> m_xyz_front s0' = m_xyz_front s' \<and>
         calls s' = KartReset # calls s0'"
proof -
  let ?e = "\<lparr>cur_ended = True, cur_index = 1, cur_delta = 0\<rparr>"
  let ?c = "\<lparr>cur_ended = False, cur_index = 0, cur_delta = 0\<rparr>"
  let ?s = "(example_kart ?e)\<lparr>m_transform := fst (snd frame_b), node_visible := False\<rparr>"
  have 1: "controller ?s = Some ?e" by (simp add: example_kart_def new_kart_def)
  have 2: "?c = gc_update held_cursor 0 (gc_reset held_cursor ?e)"
    by (simp add: held_cursor_def)
  have 3: "\<not> isReplayEnd held_cursor ?c" by (simp add: held_cursor_def)
  have 4: "getCurrentReplayIndex held_cursor ?c = 0" by (simp add: held_cursor_def)
  have 5: "getReplayDelta held_cursor ?c = 0" by (simp add: held_cursor_def)
  have 6: "2 \<le> length (m_all_transform ?s)" by (simp add: example_kart_def new_kart_def)
  have 7: "frames_aligned ?s" by (simp add: example_kart_def new_kart_def frames_aligned_def)
  have 8: "controller (example_kart ?c) = Some ?c" by (simp add: example_kart_def new_kart_def)
  have 9: "gc_update held_cursor 0 ?c = ?c" by (simp add: held_cursor_def)
  have 10: "m_all_transform (example_kart ?c) = m_all_transform ?s"
    and 11: "m_all_physic_info (example_kart ?c) = m_all_physic_info ?s"
    and 12: "m_all_replay_events (example_kart ?c) = m_all_replay_events ?s"
    and 13: "m_graphical_y_offset (example_kart ?c) = m_graphical_y_offset ?s"
    and 14: "node_visible (example_kart ?c)"
    by (simp_all add: example_kart_def new_kart_def)
  have t0: "m_all_transform ?s ! 0 = fst (snd frame_a)"
    by (simp add: example_kart_def new_kart_def)
  have c0: "calls ?s = []" "calls (example_kart ?c) = []"
    by (simp_all add: example_kart_def new_kart_def)
  from reset_replays_first_frame [OF 1 2 3 4 5 6 7 8 9 10 11 12 13 14, of example_env]
  obtain s' s0' out where h: "reset held_cursor example_env ?s = Inr s'"
    "update held_cursor example_env 0 (example_kart ?c) = Inr s0'"
    "node_visible s'" "controller s' = Some ?c" "m_transform s' = m_all_transform ?s ! 0"
    "node_visible s0'" "controller s0' = Some ?c"
    "m_transform s0' = m_transform s'" "m_xyz_front s0' = m_xyz_front s'"
    "calls s0' = calls (example_kart ?c) @ out" "calls s' = calls ?s @ [KartReset] @ out"
    by blast
  have "calls s' = KartReset # calls s0'" using h(10) h(11) c0 by simp
  with h(1-3) h(5) [unfolded t0] h(8) h(9) show ?thesis by blast
qed

text \<open>
  C7. The graphical y offset is computed at the append of the first frame, as the
  negated average of that frame's four suspension lengths plus the model's lowest
  point; every sequence of later appends leaves it unchanged, and
  \<open>setDefaultSuspension\<close> has been called once.
\<close>

theorem baseline_offset_computed_once:
  assumes "controller s = Some gc"
    and "m_all_physic_info s = []"
    and "length (m_suspension_length phys) = 4"
  shows "\<exists>s1 s'. addReplayEvent gcI env time tr phys kre s = Inr s1 \<and>
           m_graphical_y_offset s1 =
             - (sum_list (m_suspension_length phys) / 4) + getLowestPoint env \<and>
           addReplayEvents gcI env fs s1 = Inr s' \<and>
           m_graphical_y_offset s' = m_graphical_y_offset s1 \<and>
           calls s' = calls s @ [SetDefaultSuspension]"
proof -
  from addReplayEvent_first [OF assms, of gcI env time tr kre]
  obtain s1 where s1: "addReplayEvent gcI env time tr phys kre s = Inr s1"
      "controller s1 = Some (addReplayTime gcI time gc)" "m_all_physic_info s1 \<noteq> []"
      "m_graphical_y_offset s1 =
         - (sum_list (m_suspension_length phys) / 4) + getLowestPoint env"
      "calls s1 = calls s @ [SetDefaultSuspension]"
    by blast
  from addReplayEvents_later [OF s1(2) s1(3), of gcI env fs]
  obtain s' where s': "addReplayEvents gcI env fs s1 = Inr s'"
      "m_graphical_y_offset s' = m_graphical_y_offset s1" "calls s' = calls s1"
    by blast
  from s1 s' show ?thesis by auto
qed

text \<open>
  Suspension lengths \<open>1, 2, 3, 4\<close> and a lowest point of \<open>1/2\<close> give \<open>- 2\<close>.
\<close>

theorem baseline_offset_computed_once_witness:
  "\<exists>s1 s'. addReplayEvent held_cursor example_env 0 (fst (snd frame_a))
               (fst (snd (snd frame_a))) (snd (snd (snd frame_a)))
               (new_kart \<lparr>cur_ended = False, cur_index = 0, cur_delta = 0\<rparr>) = Inr s1 \<and>
            m_graphical_y_offset s1 = - 2 \<and>
            addReplayEvents held_cursor example_env [frame_b, frame_a, frame_b] s1 = Inr s' \<and>
            m_graphical_y_offset s' = - 2 \<and> calls s' = [SetDefaultSuspension]"
proof -
  let ?c = "\<lparr>cur_ended = False, cur_index = 0, cur_delta = 0\<rparr>"
  have 1: "controller (new_kart ?c) = Some ?c" by (simp add: new_kart_def)
  have 2: "m_all_physic_info (new_kart ?c) = []" by (simp add: new_kart_def)
  have 3: "length (m_suspension_length (fst (snd (snd frame_a)))) = 4"
    by (simp add: frame_a_def)
  have 4: "- (sum_list (m_suspension_length (fst (snd (snd frame_a)))) / 4)
             + getLowestPoint example_env = - 2"
    by (simp add: frame_a_def example_env_def)
  have 5: "calls (new_kart ?c) = []" by (simp add: new_kart_def)
  from baseline_offset_computed_once [OF 1 2 3, of held_cursor example_env 0
      "fst (snd frame_a)" "snd (snd (snd frame_a))" "[frame_b, frame_a, frame_b]"]
  show ?thesis unfolding 4 5 by auto
qed

text \<open>
  C8, in the form that holds. On a tick that does not end, the one check of \<open>update\<close>
  is the assertion \<open>idx < m_all_transform.size()\<close>. A cursor index outside the store
  fails it. When it passes, the reads at \<open>idx\<close> are inside the three vectors; the read
  at \<open>idx + 1\<close> is inside the store, and the tick completes, exactly when
  \<open>idx + 1\<close> is a valid index, which the assertion does not check: at
  \<open>idx + 1 = size\<close> the assertion passes and \<open>m_all_transform[idx + 1]\<close> is read past
  the end.
\<close>

theorem update_bounds_check:
  assumes "controller s = Some gc0"
    and "\<not> isReplayEnd gcI (gc_update gcI dt gc0)"
    and "getCurrentReplayIndex gcI (gc_update gcI dt gc0) = idx"
    and "frames_aligned s"
  shows "if idx < length (m_all_transform s)
         then idx < length (m_all_replay_events s) \<and> idx < length (m_all_physic_info s) \<and>
              (if idx + 1 < length (m_all_transform s)
               then \<exists>s'. update gcI env dt s = Inr s'
               else update gcI env dt s = Inl OutOfBounds)
         else update gcI env dt s = Inl AssertFailed"
proof (cases "idx < length (m_all_transform s)")
  case True
  show ?thesis
  proof (cases "idx + 1 < length (m_all_transform s)")
    case inside: True
    have "\<exists>s'. update gcI env dt s = Inr s'"
      using update_active [OF assms(1) refl assms(2) assms(3) [symmetric] refl inside assms(4)
          refl refl refl, where env = env]
      by blast
    with True inside assms(4) show ?thesis by (simp add: frames_aligned_def)
  next
    case False
    have "update gcI env dt s = Inl OutOfBounds"
      using True False assms(1-3) by (simp add: update_def Let_def)
    with True False assms(4) show ?thesis by (simp add: frames_aligned_def)
  qed
next
  case False
  then show ?thesis using assms(1-3) by (simp add: update_def Let_def)
qed

text \<open>
  The example store of two frames with the cursor at index 0, at index 1 and at
  index 2.
\<close>

theorem update_bounds_check_witness:
  "(\<exists>s'. update held_cursor example_env 0
            (example_kart \<lparr>cur_ended = False, cur_index = 0, cur_delta = 0\<rparr>) = Inr s') \<and>
   update held_cursor example_env 0
     (example_kart \<lparr>cur_ended = False, cur_index = 1, cur_delta = 0\<rparr>) = Inl OutOfBounds \<and>
   update held_cursor example_env 0
     (example_kart \<lparr>cur_ended = False, cur_index = 2, cur_delta = 0\<rparr>) = Inl AssertFailed"
  using update_bounds_check [of "example_kart \<lparr>cur_ended = False, cur_index = 0, cur_delta = 0\<rparr>"
      "\<lparr>cur_ended = False, cur_index = 0, cur_delta = 0\<rparr>" held_cursor 0 0 example_env]
    update_bounds_check [of "example_kart \<lparr>cur_ended = False, cur_index = 1, cur_delta = 0\<rparr>"
      "\<lparr>cur_ended = False, cur_index = 1, cur_delta = 0\<rparr>" held_cursor 0 1 example_env]
    update_bounds_check [of "example_kart \<lparr>cur_ended = False, cur_index = 2, cur_delta = 0\<rparr>"
      "\<lparr>cur_ended = False, cur_index = 2, cur_delta = 0\<rparr>" held_cursor 0 2 example_env]
  by (simp add: example_kart_def new_kart_def held_cursor_def frames_aligned_def)

text \<open>
  C8 as stated fails: the assertion does not cover the read at \<open>idx + 1\<close>. On a
  store of one frame with the cursor at index 0 and not ended, the assertion passes
  and \<open>update\<close> reads \<open>m_all_transform[1]\<close> past the end.
\<close>

theorem update_bounds_check_counterexample:
  "\<not> isReplayEnd held_cursor
       (gc_update held_cursor 0 \<lparr>cur_ended = False, cur_index = 0, cur_delta = 0\<rparr>) \<and>
   getCurrentReplayIndex held_cursor
       (gc_update held_cursor 0 \<lparr>cur_ended = False, cur_index = 0, cur_delta = 0\<rparr>)
     < length (m_all_transform (one_frame_kart \<lparr>cur_ended = False, cur_index = 0, cur_delta = 0\<rparr>)) \<and>
   frames_aligned (one_frame_kart \<lparr>cur_ended = False, cur_index = 0, cur_delta = 0\<rparr>) \<and>
   update held_cursor example_env 0
     (one_frame_kart \<lparr>cur_ended = False, cur_index = 0, cur_delta = 0\<rparr>) = Inl OutOfBounds"
  by (simp add: update_def one_frame_kart_def new_kart_def held_cursor_def frames_aligned_def)




text \<open>
  C10. When the kart's controller is not a \<open>GhostController\<close>, \<open>update\<close> returns
  the state as it is.
\<close>

theorem update_without_ghost_controller:
  assumes "controller s = None"
  shows "update gcI env dt s = Inr s"
  using assms by (simp add: update_def)

text \<open>
  The example kart under another controller.
\<close>

theorem update_without_ghost_controller_witness:
  "update held_cursor example_env 1
     ((example_kart \<lparr>cur_ended = False, cur_index = 0, cur_delta = 0\<rparr>)\<lparr>controller := None\<rparr>)
   = Inr ((example_kart \<lparr>cur_ended = False, cur_index = 0, cur_delta = 0\<rparr>)\<lparr>controller := None\<rparr>)"
  using update_without_ghost_controller
    [of "(example_kart \<lparr>cur_ended = False, cur_index = 0, cur_delta = 0\<rparr>)\<lparr>controller := None\<rparr>"
        held_cursor example_env 1]
  by simp

end
